theory Spec2Isabelle
  imports Main "HOL-Library.Multiset"
begin

section \<open>Errors\<close>

text \<open>
  Every exception the modelled Python can raise is a value. Python raises the one class
  \<open>ValueError\<close> for several reasons here; the reason is kept as a tag, so that the range
  check of the note conversions can be told apart from a failing \<open>int(...)\<close>, from
  unpacking an empty \<open>zip\<close>, from \<open>max\<close> of an empty list and from a failing
  \<open>list.index\<close>.
\<close>

datatype value_error =
    InvalidLiteral     \<comment> \<open>\<open>int(s)\<close> on a string that is no decimal literal\<close>
  | NotInMidiRange     \<comment> \<open>the \<open>raise ValueError\<close> of \<open>note2num\<close> and \<open>num2note\<close>\<close>
  | NotEnoughValues    \<comment> \<open>unpacking two names from an empty \<open>zip(*...)\<close>\<close>
  | EmptyMax           \<comment> \<open>\<open>max([])\<close>\<close>
  | NotInList          \<comment> \<open>\<open>xs.index(v)\<close> with \<open>v\<close> not in \<open>xs\<close>\<close>

datatype error = IndexError | KeyError | ValueError value_error

section \<open>Positions\<close>

text \<open>
  Modelled from the spec: the base class \<open>Position\<close> (\<open>position.py\<close> is not among the
  sources). The spec gives it the fields \<open>placements\<close>, \<open>fingers\<close> and an optional \<open>id\<close>
  and a constructor that stores its three arguments, checking nothing. The field \<open>id\<close> is
  named \<open>pos_id\<close> here, after the constructor's parameter, since \<open>id\<close> is the identity
  function of HOL. Python's integers are unbounded: \<open>int\<close>.
\<close>

record Position =
  placements :: "int list"
  fingers :: "int list"
  pos_id :: "int option"

definition Position_init :: "int list \<Rightarrow> int list \<Rightarrow> int option \<Rightarrow> Position" where
  "Position_init ps fs i = \<lparr>placements = ps, fingers = fs, pos_id = i\<rparr>"

text \<open>
  \<open>NeckPosition\<close> adds no field. Its constructor copies both lists (\<open>list(...)\<close>) and hands
  them to the base class; in a model without aliasing the copy is the list itself.
\<close>

type_synonym NeckPosition = Position

definition NeckPosition :: "int list \<Rightarrow> int list \<Rightarrow> int option \<Rightarrow> NeckPosition" where
  "NeckPosition ps fs i = Position_init ps fs i"

definition convert_strings_frets_to_placements :: "int list \<Rightarrow> int list \<Rightarrow> int list" where
  "convert_strings_frets_to_placements ss fs = map (\<lambda>(s, f). s * 100 + f) (zip ss fs)"

definition from_strings_frets ::
  "int list \<Rightarrow> int list \<Rightarrow> int list \<Rightarrow> int option \<Rightarrow> NeckPosition" where
  "from_strings_frets fngs ss fs i =
     NeckPosition (convert_strings_frets_to_placements ss fs) fngs i"

definition from_position :: "Position \<Rightarrow> NeckPosition" where
  "from_position p = NeckPosition (placements p) (fingers p) (pos_id p)"

text \<open>Python's \<open>//\<close> and \<open>%\<close> on integers round to the floor, as \<open>div\<close> and \<open>mod\<close> do.\<close>

definition strings :: "NeckPosition \<Rightarrow> int list" where
  "strings self = map (\<lambda>note. note div 100) (placements self)"

definition frets :: "NeckPosition \<Rightarrow> int list" where
  "frets self = map (\<lambda>note. note mod 100) (placements self)"

subsection \<open>Sorting\<close>

text \<open>
  \<open>sorted(xs, key=k, reverse=r)\<close> is stable. With \<open>reverse=True\<close> CPython reverses the
  list, sorts it stably in ascending order and reverses the result, so that elements with
  equal keys keep their order. \<open>sort_key\<close> is a stable insertion sort.
\<close>

definition sorted_py :: "('a \<Rightarrow> int) \<Rightarrow> bool \<Rightarrow> 'a list \<Rightarrow> 'a list" where
  "sorted_py key reverse xs =
     (if reverse then rev (sort_key key (rev xs)) else sort_key key xs)"

text \<open>
  \<open>a, b = map(list, zip(*pairs))\<close>: \<open>zip(*pairs)\<close> of a non-empty list of pairs yields the
  two columns; of an empty list it yields nothing, and unpacking two names raises.
\<close>

definition unzip_pairs :: "(int \<times> int) list \<Rightarrow> error + (int list \<times> int list)" where
  "unzip_pairs ps =
     (if ps = [] then Inl (ValueError NotEnoughValues) else Inr (map fst ps, map snd ps))"

definition sort_by_string :: "NeckPosition \<Rightarrow> bool \<Rightarrow> error + NeckPosition" where
  "sort_by_string self reverse =
     (case unzip_pairs (sorted_py (\<lambda>x. fst x) reverse (zip (placements self) (fingers self))) of
        Inl e \<Rightarrow> Inl e
      | Inr (sorted_placements, sorted_fingers) \<Rightarrow>
          Inr (NeckPosition sorted_placements sorted_fingers (pos_id self)))"

definition sort_by_fret :: "NeckPosition \<Rightarrow> error + NeckPosition" where
  "sort_by_fret self =
     (case unzip_pairs (sorted_py (\<lambda>x. fst x mod 100) False (zip (placements self) (fingers self))) of
        Inl e \<Rightarrow> Inl e
      | Inr (sorted_placements, sorted_fingers) \<Rightarrow>
          Inr (NeckPosition sorted_placements sorted_fingers (pos_id self)))"

definition sort_by_finger :: "NeckPosition \<Rightarrow> error + NeckPosition" where
  "sort_by_finger self =
     (case unzip_pairs (sorted_py (\<lambda>x. snd x) False (zip (placements self) (fingers self))) of
        Inl e \<Rightarrow> Inl e
      | Inr (ps, fs) \<Rightarrow> Inr (NeckPosition ps fs (pos_id self)))"

text \<open>
  The spec's reading of \<open>sort_by_string\<close>, for comparison with the code: a stable sort of
  the pairs by the string component \<open>placement // 100\<close> only.
\<close>

definition sort_by_string_component :: "NeckPosition \<Rightarrow> bool \<Rightarrow> error + NeckPosition" where
  "sort_by_string_component self reverse =
     (case unzip_pairs (sorted_py (\<lambda>x. fst x div 100) reverse (zip (placements self) (fingers self))) of
        Inl e \<Rightarrow> Inl e
      | Inr (sorted_placements, sorted_fingers) \<Rightarrow>
          Inr (NeckPosition sorted_placements sorted_fingers (pos_id self)))"

subsection \<open>In-place operations\<close>

text \<open>\<open>add_note\<close> and \<open>shift\<close> mutate \<open>self\<close>; the model returns the updated position.\<close>

definition add_note :: "NeckPosition \<Rightarrow> int \<Rightarrow> int \<Rightarrow> int \<Rightarrow> NeckPosition" where
  "add_note self string fret finger =
     self\<lparr>placements := placements self @ [string * 100 + fret],
          fingers := fingers self @ [finger]\<rparr>"

definition max_py :: "int list \<Rightarrow> error + int" where
  "max_py xs = (case xs of [] \<Rightarrow> Inl (ValueError EmptyMax) | y # ys \<Rightarrow> Inr (fold max ys y))"

text \<open>
  The loop of \<open>shift\<close> runs \<open>i\<close> over \<open>range(len(self.placements))\<close> and reads
  \<open>self.fingers[i]\<close>, which raises \<open>IndexError\<close> once \<open>i\<close> reaches \<open>len(self.fingers)\<close>.
  \<open>shift_loop\<close> takes the indices still to visit and the \<open>new_fingers\<close> built so far.
\<close>

fun shift_loop :: "int list \<Rightarrow> int \<Rightarrow> nat list \<Rightarrow> int list \<Rightarrow> error + int list" where
  "shift_loop fs shift [] new_fingers = Inr new_fingers"
| "shift_loop fs shift (i # is) new_fingers =
     (if i < length fs then
        (if fs ! i > 0 then shift_loop fs shift is (new_fingers @ [fs ! i + shift])
         else shift_loop fs shift is (new_fingers @ [fs ! i]))
      else Inl IndexError)"

text \<open>\<open>or\<close> is short-circuit: \<open>max\<close> is computed only when \<open>max_finger\<close> is not a finger.\<close>

definition shift :: "NeckPosition \<Rightarrow> int \<Rightarrow> int \<Rightarrow> error + NeckPosition" where
  "shift self shift_by max_finger =
     (if max_finger \<in> set (fingers self) then Inr self
      else (case max_py (fingers self) of
        Inl e \<Rightarrow> Inl e
      | Inr m \<Rightarrow>
          (if m + shift_by > max_finger then Inr self
           else (case shift_loop (fingers self) shift_by [0 ..< length (placements self)] [] of
             Inl e \<Rightarrow> Inl e
           | Inr new_fingers \<Rightarrow> Inr (self\<lparr>fingers := new_fingers\<rparr>)))))"

subsection \<open>Queries and expansion\<close>

definition is_barre :: "NeckPosition \<Rightarrow> bool" where
  "is_barre self =
     (let non_quiet_fingers = filter (\<lambda>finger. finger > 0) (fingers self)
      in length non_quiet_fingers \<noteq> card (set non_quiet_fingers))"

text \<open>\<open>xs.index(v)\<close>: the first index holding \<open>v\<close>, \<open>ValueError\<close> when there is none.\<close>

fun index_py :: "int list \<Rightarrow> int \<Rightarrow> error + nat" where
  "index_py [] v = Inl (ValueError NotInList)"
| "index_py (x # xs) v =
     (if x = v then Inr 0
      else (case index_py xs v of Inl e \<Rightarrow> Inl e | Inr n \<Rightarrow> Inr (Suc n)))"

text \<open>
  The loop of \<open>get_full_position\<close>, over the indices of \<open>range(num_strings)\<close> still to
  visit. \<open>self.placements[k]\<close> raises \<open>IndexError\<close> out of range.
\<close>

fun full_loop :: "NeckPosition \<Rightarrow> int list \<Rightarrow> int list \<Rightarrow> error + int list" where
  "full_loop self [] new_placements = Inr new_placements"
| "full_loop self (i # is) new_placements =
     (if i \<in> set (strings self) then
        (case index_py (strings self) i of
           Inl e \<Rightarrow> Inl e
         | Inr k \<Rightarrow>
             (if k < length (placements self)
              then full_loop self is (new_placements @ [placements self ! k])
              else Inl IndexError))
      else full_loop self is (new_placements @ [- 1]))"

text \<open>
  \<open>range(n)\<close> is \<open>0, ..., n - 1\<close>, empty when \<open>n \<le> 0\<close>. The result is built with
  \<open>NeckPosition(new_placements, self.fingers)\<close>: no third argument, so its id is the
  default \<open>None\<close>.
\<close>

definition get_full_position :: "NeckPosition \<Rightarrow> int \<Rightarrow> error + NeckPosition" where
  "get_full_position self num_fingers =
     (let num_strings = num_fingers in
      case full_loop self [0 .. num_strings - 1] [] of
        Inl e \<Rightarrow> Inl e
      | Inr new_placements \<Rightarrow> Inr (NeckPosition new_placements (fingers self) None))"

definition copy :: "NeckPosition \<Rightarrow> NeckPosition" where
  "copy self = NeckPosition (placements self) (fingers self) (pos_id self)"

section \<open>Note names and MIDI numbers\<close>

subsection \<open>The builtins \<open>str\<close> and \<open>int\<close>\<close>

text \<open>
  \<open>str(n)\<close> is the decimal numeral of \<open>n\<close>, with a minus sign when \<open>n\<close> is negative.
\<close>

definition digit_char :: "nat \<Rightarrow> char" where
  "digit_char d = ''0123456789'' ! d"

function str_nat :: "nat \<Rightarrow> string" where
  "str_nat n = (if n < 10 then [digit_char n] else str_nat (n div 10) @ [digit_char (n mod 10)])"
  by pat_completeness auto
termination
  by (relation "measure (\<lambda>n. n)") auto

definition str_py :: "int \<Rightarrow> string" where
  "str_py i = (if i < 0 then CHR ''-'' # str_nat (nat (- i)) else str_nat (nat i))"

text \<open>
  \<open>int(s)\<close> in base 10, on ASCII text: white space around the literal is dropped (tab,
  line feed, vertical tab, form feed, carriage return and space; the separators
  \<open>0x1C\<close> to \<open>0x1F\<close> are not dropped and make the literal invalid), one sign may lead,
  and the digits may be grouped by single underscores between digits. Anything else is a
  \<open>ValueError\<close>. (Python also accepts the decimal digits and the white space of other
  scripts; a \<open>char\<close> is a byte, so those are outside this model, as is the
  interpreter's configurable bound on the number of digits.)
\<close>

definition is_space :: "char \<Rightarrow> bool" where
  "is_space c = (c \<in> set [CHR 0x09, CHR 0x0A, CHR 0x0B, CHR 0x0C, CHR 0x0D, CHR 0x20])"

definition strip :: "string \<Rightarrow> string" where
  "strip s = rev (dropWhile is_space (rev (dropWhile is_space s)))"

definition digit_val :: "char \<Rightarrow> int option" where
  "digit_val c = map_of
     [(CHR ''0'', 0), (CHR ''1'', 1), (CHR ''2'', 2), (CHR ''3'', 3), (CHR ''4'', 4),
      (CHR ''5'', 5), (CHR ''6'', 6), (CHR ''7'', 7), (CHR ''8'', 8), (CHR ''9'', 9)] c"

text \<open>
  \<open>parse_digits cs acc after_digit\<close>: \<open>acc\<close> is the value read so far and \<open>after_digit\<close>
  says whether the previous character was a digit. An underscore is legal only between two
  digits, and the literal has to end on a digit.
\<close>

fun parse_digits :: "string \<Rightarrow> int \<Rightarrow> bool \<Rightarrow> error + int" where
  "parse_digits [] acc after_digit =
     (if after_digit then Inr acc else Inl (ValueError InvalidLiteral))"
| "parse_digits (c # cs) acc after_digit =
     (if c = CHR ''_'' then
        (if after_digit then parse_digits cs acc False else Inl (ValueError InvalidLiteral))
      else (case digit_val c of
              None \<Rightarrow> Inl (ValueError InvalidLiteral)
            | Some d \<Rightarrow> parse_digits cs (10 * acc + d) True))"

definition int_py :: "string \<Rightarrow> error + int" where
  "int_py s =
     (case strip s of
        [] \<Rightarrow> Inl (ValueError InvalidLiteral)
      | c # cs \<Rightarrow>
          (if c = CHR ''-'' then
             (case parse_digits cs 0 False of Inl e \<Rightarrow> Inl e | Inr v \<Rightarrow> Inr (- v))
           else if c = CHR ''+'' then parse_digits cs 0 False
           else parse_digits (c # cs) 0 False))"

subsection \<open>\<open>note2num\<close> and \<open>num2note\<close>\<close>

definition notes_dict :: "char \<Rightarrow> int option" where
  "notes_dict = map_of
     [(CHR ''C'', 0), (CHR ''D'', 2), (CHR ''E'', 4), (CHR ''F'', 5),
      (CHR ''G'', 7), (CHR ''A'', 9), (CHR ''B'', 11)]"

text \<open>
  \<open>note_number\<close> is \<open>note2num\<close> up to its range check: the value of the variable \<open>num\<close>
  when the check is reached, or the exception raised before. In the source's order:
  \<open>note[0]\<close> and \<open>note[1]\<close> raise \<open>IndexError\<close> on a string that is too short, the slices
  \<open>note[1:]\<close> and \<open>note[2:]\<close> never raise, \<open>int\<close> raises \<open>ValueError\<close>, and the
  dictionary is read last, raising \<open>KeyError\<close>.
\<close>

definition note_number :: "string \<Rightarrow> error + int" where
  "note_number note =
     (case note of
        [] \<Rightarrow> Inl IndexError
      | letter # rest \<Rightarrow>
          (case rest of
             [] \<Rightarrow> Inl IndexError
           | c # _ \<Rightarrow>
               (case (if c \<in> set [CHR ''#'', CHR ''b'']
                      then (case int_py (drop 2 note) of
                              Inl e \<Rightarrow> Inl e | Inr octave \<Rightarrow> Inr ([c], octave))
                      else (case int_py (drop 1 note) of
                              Inl e \<Rightarrow> Inl e | Inr octave \<Rightarrow> Inr ([], octave))) of
                  Inl e \<Rightarrow> Inl e
                | Inr (alt, octave) \<Rightarrow>
                    (case notes_dict letter of
                       None \<Rightarrow> Inl KeyError
                     | Some base \<Rightarrow>
                         Inr (base + 12 * octave
                              + (1 * (if alt = ''#'' then 1 else 0)
                                 - 1 * (if alt = ''b'' then 1 else 0)))))))"

definition note2num :: "string \<Rightarrow> error + int" where
  "note2num note =
     (case note_number note of
        Inl e \<Rightarrow> Inl e
      | Inr num \<Rightarrow>
          (if num < 0 \<or> num > 127 then Inl (ValueError NotInMidiRange) else Inr num))"

definition notes_list :: "string list" where
  "notes_list = [''C'', ''C#'', ''D'', ''D#'', ''E'', ''F'', ''F#'', ''G'', ''G#'', ''A'', ''A#'', ''B'']"

definition num2note :: "int \<Rightarrow> error + string" where
  "num2note num =
     (if num < 0 \<or> num > 127 then Inl (ValueError NotInMidiRange)
      else (let note = notes_list ! nat (num mod 12);
                octave = num div 12
            in Inr (note @ str_py octave)))"

section \<open>Basic facts\<close>

lemma NeckPosition_sel [simp]:
  "placements (NeckPosition ps fs i) = ps"
  "fingers (NeckPosition ps fs i) = fs"
  "pos_id (NeckPosition ps fs i) = i"
  by (simp_all add: NeckPosition_def Position_init_def)

lemma NeckPosition_eq_iff [simp]:
  "NeckPosition ps fs i = NeckPosition ps' fs' i' \<longleftrightarrow> ps = ps' \<and> fs = fs' \<and> i = i'"
  by (auto simp: NeckPosition_def Position_init_def)

section \<open>Barre detection\<close>

lemma count_list_filter:
  "count_list (filter P xs) x = (if P x then count_list xs x else 0)"
  by (induction xs) auto

lemma distinct_iff_count_list: "distinct xs \<longleftrightarrow> (\<forall>x. count_list xs x \<le> 1)"
proof (induction xs)
  case Nil
  show ?case by simp
next
  case (Cons a xs)
  show ?case
  proof
    assume d: "distinct (a # xs)"
    then have "count_list xs a = 0" by (simp add: count_list_0_iff)
    with d Cons show "\<forall>x. count_list (a # xs) x \<le> 1" by auto
  next
    assume c: "\<forall>x. count_list (a # xs) x \<le> 1"
    then have "count_list (a # xs) a \<le> 1" by blast
    then have "a \<notin> set xs" by (simp add: count_list_0_iff [symmetric])
    moreover have "\<forall>x. count_list xs x \<le> 1"
    proof
      fix x from c have "count_list (a # xs) x \<le> 1" by blast
      then show "count_list xs x \<le> 1" by (simp split: if_splits)
    qed
    ultimately show "distinct (a # xs)" using Cons by simp
  qed
qed

lemma is_barre_distinct: "is_barre p \<longleftrightarrow> \<not> distinct (filter (\<lambda>f. f > 0) (fingers p))"
  unfolding is_barre_def Let_def using card_distinct distinct_card by metis

lemma is_barre_count: "is_barre p \<longleftrightarrow> (\<exists>f. f > 0 \<and> 1 < count_list (fingers p) f)"
proof -
  have "is_barre p \<longleftrightarrow> (\<exists>f. \<not> count_list (filter (\<lambda>f. f > 0) (fingers p)) f \<le> 1)"
    by (simp add: is_barre_distinct distinct_iff_count_list)
  also have "\<dots> \<longleftrightarrow> (\<exists>f. f > 0 \<and> 1 < count_list (fingers p) f)"
    by (auto simp: count_list_filter not_le split: if_splits)
  finally show ?thesis .
qed

lemma is_barre_ex1: "is_barre (NeckPosition ps [2, 2, 0, 0, 0, 0] i)"
  by (simp add: is_barre_def NeckPosition_def Position_init_def)

lemma is_barre_ex2: "\<not> is_barre (NeckPosition ps [1, 2, 3, 0, 0, 0] i)"
  by (simp add: is_barre_def NeckPosition_def Position_init_def)

lemma is_barre_ex3: "\<not> is_barre (NeckPosition ps [0, 0, 0, 0, 0, 0] i)"
  by (simp add: is_barre_def NeckPosition_def Position_init_def)

text \<open>
  C9. \<open>is_barre\<close> is true exactly when some finger value greater than 0 occurs more than
  once among the fingers (\<open>count_list\<close> counts the occurrences); zero and negative values
  never make a barre. It is true for the fingers \<open>[2,2,0,0,0,0]\<close> and false for
  \<open>[1,2,3,0,0,0]\<close> and \<open>[0,0,0,0,0,0]\<close>, whatever the placements and the id.
\<close>

theorem is_barre_correct:
  "(is_barre p \<longleftrightarrow> (\<exists>f. f > 0 \<and> 1 < count_list (fingers p) f))
   \<and> is_barre (NeckPosition ps [2, 2, 0, 0, 0, 0] i)
   \<and> \<not> is_barre (NeckPosition ps [1, 2, 3, 0, 0, 0] i)
   \<and> \<not> is_barre (NeckPosition ps [0, 0, 0, 0, 0, 0] i)"
  using is_barre_count is_barre_ex1 is_barre_ex2 is_barre_ex3 by blast

theorem is_barre_correct_witness:
  "is_barre (NeckPosition [100, 200, 305] [3, - 1, 3] None)
   \<and> (0::int) < 3 \<and> 1 < count_list (fingers (NeckPosition [100, 200, 305] [3, - 1, 3] None)) 3
   \<and> \<not> is_barre (NeckPosition [100, 200] [- 1, - 1] None)"
proof -
  have c: "(0::int) < 3 \<and> 1 < count_list (fingers (NeckPosition [100, 200, 305] [3, - 1, 3] None)) 3"
    by (simp add: NeckPosition_def Position_init_def)
  have n: "\<not> (\<exists>f. f > 0 \<and> 1 < count_list (fingers (NeckPosition [100, 200] [- 1, - 1] None)) f)"
    by (simp add: NeckPosition_def Position_init_def)
  from c n show ?thesis
    using is_barre_correct [of "NeckPosition [100, 200, 305] [3, - 1, 3] None"]
          is_barre_correct [of "NeckPosition [100, 200] [- 1, - 1] None"]
    by blast
qed

section \<open>Expansion to a full position\<close>

lemma index_py_find:
  "v \<in> set (map f xs) \<Longrightarrow>
     \<exists>k. index_py (map f xs) v = Inr k \<and> k < length xs \<and> find (\<lambda>x. f x = v) xs = Some (xs ! k)"
proof (induction xs)
  case Nil
  then show ?case by simp
next
  case (Cons a xs)
  show ?case
  proof (cases "f a = v")
    case True
    then show ?thesis by simp
  next
    case False
    with Cons.prems have "v \<in> set (map f xs)" by auto
    from Cons.IH [OF this] obtain k where
      "index_py (map f xs) v = Inr k" "k < length xs" "find (\<lambda>x. f x = v) xs = Some (xs ! k)"
      by blast
    with False show ?thesis by simp
  qed
qed

lemma full_loop_result:
  "full_loop p is acc =
     Inr (acc @ map (\<lambda>i. case find (\<lambda>pl. pl div 100 = i) (placements p) of
                            Some v \<Rightarrow> v | None \<Rightarrow> - 1) is)"
proof (induction "is" arbitrary: acc)
  case Nil
  show ?case by simp
next
  case (Cons i "is")
  show ?case
  proof (cases "i \<in> set (strings p)")
    case True
    then have "i \<in> set (map (\<lambda>note. note div 100) (placements p))"
      by (simp add: strings_def)
    from index_py_find [OF this] obtain k where
      k: "index_py (strings p) i = Inr k" "k < length (placements p)"
         "find (\<lambda>pl. pl div 100 = i) (placements p) = Some (placements p ! k)"
      unfolding strings_def by blast
    with True Cons show ?thesis by simp
  next
    case False
    then have "find (\<lambda>pl. pl div 100 = i) (placements p) = None"
      by (auto simp: strings_def find_None_iff)
    with False Cons show ?thesis by simp
  qed
qed

lemma get_full_position_result:
  "get_full_position p n =
     Inr (NeckPosition
            (map (\<lambda>i. case find (\<lambda>pl. pl div 100 = i) (placements p) of
                         Some v \<Rightarrow> v | None \<Rightarrow> - 1) [0 .. n - 1])
            (fingers p) None)"
  by (simp add: get_full_position_def full_loop_result)

lemma get_full_position_example:
  "get_full_position (NeckPosition [0 * 100 + 0, 2 * 100 + 3] fs i) 6
     = Inr (NeckPosition [0, - 1, 203, - 1, - 1, - 1] fs None)"
  by (simp add: get_full_position_result upto_rec1)

text \<open>
  C2. \<open>get_full_position\<close> always returns. Its placements have one entry for each index of
  \<open>range(num_fingers)\<close>, that is \<open>num_fingers\<close> entries (none when \<open>num_fingers\<close> is
  negative, where the range is empty): entry \<open>i\<close> is the first placement of the position
  whose string component is \<open>i\<close> when \<open>i\<close> is among the position's strings, and \<open>-1\<close>
  otherwise. The fingers are those of the position, unchanged. On the strings \<open>[0,2]\<close>
  with placements \<open>[0, 203]\<close> and six slots the placements are
  \<open>[0, -1, 203, -1, -1, -1]\<close>.
\<close>

theorem get_full_position_correct:
  "(\<exists>q. get_full_position p n = Inr q
        \<and> length (placements q) = nat n
        \<and> fingers q = fingers p
        \<and> (\<forall>i < nat n.
             (int i \<in> set (strings p) \<longrightarrow>
                find (\<lambda>pl. pl div 100 = int i) (placements p) = Some (placements q ! i))
           \<and> (int i \<notin> set (strings p) \<longrightarrow> placements q ! i = - 1)))
   \<and> strings (NeckPosition [0, 203] fs j) = [0, 2]
   \<and> get_full_position (NeckPosition [0, 203] fs j) 6
       = Inr (NeckPosition [0, - 1, 203, - 1, - 1, - 1] fs None)"
proof -
  let ?slot = "\<lambda>i. case find (\<lambda>pl. pl div 100 = i) (placements p) of Some v \<Rightarrow> v | None \<Rightarrow> - 1"
  let ?q = "NeckPosition (map ?slot [0 .. n - 1]) (fingers p) None"
  have r: "get_full_position p n = Inr ?q" by (rule get_full_position_result)
  have l: "length (placements ?q) = nat n" by simp
  have f: "fingers ?q = fingers p" by simp
  have e: "placements ?q ! i = ?slot (int i)" if "i < nat n" for i
    using that by (simp add: nth_upto)
  have s: "\<forall>i < nat n.
             (int i \<in> set (strings p) \<longrightarrow>
                find (\<lambda>pl. pl div 100 = int i) (placements p) = Some (placements ?q ! i))
           \<and> (int i \<notin> set (strings p) \<longrightarrow> placements ?q ! i = - 1)"
  proof (intro allI impI conjI)
    fix i assume i: "i < nat n" and m: "int i \<in> set (strings p)"
    then obtain v where "find (\<lambda>pl. pl div 100 = int i) (placements p) = Some v"
      by (cases "find (\<lambda>pl. pl div 100 = int i) (placements p)")
         (auto simp: strings_def find_None_iff)
    then show "find (\<lambda>pl. pl div 100 = int i) (placements p) = Some (placements ?q ! i)"
      using e [OF i] by simp
  next
    fix i assume i: "i < nat n" and m: "int i \<notin> set (strings p)"
    then have "find (\<lambda>pl. pl div 100 = int i) (placements p) = None"
      by (force simp: strings_def find_None_iff)
    then show "placements ?q ! i = - 1" using e [OF i] by simp
  qed
  have x1: "strings (NeckPosition [0, 203] fs j) = [0, 2]" by (simp add: strings_def)
  have x2: "get_full_position (NeckPosition [0, 203] fs j) 6
       = Inr (NeckPosition [0, - 1, 203, - 1, - 1, - 1] fs None)"
    using get_full_position_example [of fs j] by simp
  from r l f s x1 x2 show ?thesis by blast
qed

theorem get_full_position_correct_witness:
  "\<exists>q. get_full_position (NeckPosition [203, 0, 207] [1, 2, 3] (Some 4)) 3 = Inr q
       \<and> length (placements q) = 3 \<and> fingers q = [1, 2, 3]
       \<and> (2::nat) < nat 3 \<and> int 2 \<in> set (strings (NeckPosition [203, 0, 207] [1, 2, 3] (Some 4)))
       \<and> placements q ! 2 = 203
       \<and> (1::nat) < nat 3 \<and> int 1 \<notin> set (strings (NeckPosition [203, 0, 207] [1, 2, 3] (Some 4)))
       \<and> placements q ! 1 = - 1"
proof -
  let ?p = "NeckPosition [203, 0, 207] [1, 2, 3] (Some 4)"
  have h2: "(2::nat) < nat 3 \<and> int 2 \<in> set (strings ?p)" by (simp add: strings_def)
  have h1: "(1::nat) < nat 3 \<and> int 1 \<notin> set (strings ?p)" by (simp add: strings_def)
  have f2: "find (\<lambda>pl. pl div 100 = int 2) (placements ?p) = Some 203" by simp
  from get_full_position_correct [of ?p 3] obtain q where
    q: "get_full_position ?p 3 = Inr q" "length (placements q) = nat 3" "fingers q = fingers ?p"
       "\<forall>i < nat 3.
             (int i \<in> set (strings ?p) \<longrightarrow>
                find (\<lambda>pl. pl div 100 = int i) (placements ?p) = Some (placements q ! i))
           \<and> (int i \<notin> set (strings ?p) \<longrightarrow> placements q ! i = - 1)"
    by blast
  from q(4) h2 have "find (\<lambda>pl. pl div 100 = int 2) (placements ?p) = Some (placements q ! 2)"
    by blast
  with f2 have e2: "placements q ! 2 = 203" by simp
  from q(4) h1 have e1: "placements q ! 1 = - 1" by blast
  from q(1) q(2) q(3) h1 h2 e1 e2 show ?thesis by simp
qed

text \<open>
  C10. The position returned by \<open>get_full_position\<close> has the id \<open>None\<close>, whatever the id
  of the position it is called on; the three sorts, in contrast, hand the id of their
  input on to their result.
\<close>

theorem get_full_position_id_None:
  "(\<exists>q. get_full_position p n = Inr q \<and> pos_id q = None)
   \<and> (\<forall>q. sort_by_string p r = Inr q \<or> sort_by_fret p = Inr q \<or> sort_by_finger p = Inr q
          \<longrightarrow> pos_id q = pos_id p)"
proof -
  have a: "\<exists>q. get_full_position p n = Inr q \<and> pos_id q = None"
    by (simp add: get_full_position_result)
  have b: "pos_id q = pos_id p" if "sort_by_string p r = Inr q" for q
    using that by (auto simp: sort_by_string_def split: sum.splits)
  have c: "pos_id q = pos_id p" if "sort_by_fret p = Inr q" for q
    using that by (auto simp: sort_by_fret_def split: sum.splits)
  have d: "pos_id q = pos_id p" if "sort_by_finger p = Inr q" for q
    using that by (auto simp: sort_by_finger_def split: sum.splits)
  from a b c d show ?thesis by blast
qed

theorem get_full_position_id_None_witness:
  "(\<exists>q. get_full_position (NeckPosition [203] [1] (Some 7)) 6 = Inr q \<and> pos_id q = None)
   \<and> sort_by_fret (NeckPosition [203] [1] (Some 7)) = Inr (NeckPosition [203] [1] (Some 7))
   \<and> pos_id (NeckPosition [203] [1] (Some 7)) = Some 7"
proof -
  have s: "sort_by_fret (NeckPosition [203] [1] (Some 7)) = Inr (NeckPosition [203] [1] (Some 7))"
    by (simp add: sort_by_fret_def sorted_py_def unzip_pairs_def)
  from s get_full_position_id_None [of "NeckPosition [203] [1] (Some 7)" 6 True]
  show ?thesis by simp
qed

section \<open>The empty position\<close>

lemma unzip_pairs_Nil [simp]: "unzip_pairs [] = Inl (ValueError NotEnoughValues)"
  by (simp add: unzip_pairs_def)

lemma sorted_py_Nil [simp]: "sorted_py key r [] = []"
  by (simp add: sorted_py_def)

lemma sorted_py_eq_Nil [simp]: "sorted_py key r xs = [] \<longleftrightarrow> xs = []"
proof -
  have "length (sorted_py key r xs) = length xs" by (simp add: sorted_py_def)
  then show ?thesis by (metis length_0_conv)
qed

text \<open>
  C5. On the empty position (no placements, no fingers) each of the three sorts raises
  (unpacking the empty \<open>zip\<close>) and \<open>shift\<close> raises. For \<open>shift\<close> empty fingers are
  enough, whatever the placements: \<open>max_finger\<close> is not among them, so \<open>max\<close> of the empty
  list is computed, and that raises.
\<close>

theorem empty_position_fails:
  "sort_by_string (NeckPosition [] [] i) r = Inl (ValueError NotEnoughValues)
   \<and> sort_by_fret (NeckPosition [] [] i) = Inl (ValueError NotEnoughValues)
   \<and> sort_by_finger (NeckPosition [] [] i) = Inl (ValueError NotEnoughValues)
   \<and> shift (NeckPosition [] [] i) s m = Inl (ValueError EmptyMax)
   \<and> m \<notin> set (fingers (NeckPosition ps [] i))
   \<and> max_py (fingers (NeckPosition ps [] i)) = Inl (ValueError EmptyMax)
   \<and> shift (NeckPosition ps [] i) s m = Inl (ValueError EmptyMax)"
  by (simp add: sort_by_string_def sort_by_fret_def sort_by_finger_def shift_def max_py_def)

section \<open>Note conversions\<close>





lemma note2num_of_number:
  "note_number note = Inr num \<Longrightarrow>
     note2num note = (if num < 0 \<or> 127 < num then Inl (ValueError NotInMidiRange) else Inr num)"
  by (simp add: note2num_def)



lemmas note_eval =
  note2num_def note_number_def int_py_def strip_def is_space_def digit_val_def notes_dict_def


text \<open>
  An octave that is no literal fails in \<open>int\<close>, before any number is computed: a
  separator character inside the name is not white space, while a space around the
  octave is.
\<close>

lemma note2num_separator:
  "note2num [CHR ''C'', CHR 0x1C, CHR ''1'', CHR ''1''] = Inl (ValueError InvalidLiteral)"
  by (simp add: note_eval)

lemma note2num_space: "note2num ''C 10 '' = Inr 120"
  by (simp add: note_eval)



lemma roundtrip_all:
  "list_all (\<lambda>k. case num2note k of Inl e \<Rightarrow> False | Inr s \<Rightarrow> note2num s = Inr k) [0..127]"
  by code_simp

text \<open>
  C6. For every integer \<open>k\<close> from 0 to 127, \<open>num2note k\<close> returns a name and \<open>note2num\<close>
  of that name returns \<open>k\<close>.
\<close>

theorem note2num_num2note:
  "0 \<le> k \<Longrightarrow> k \<le> 127 \<Longrightarrow> \<exists>s. num2note k = Inr s \<and> note2num s = Inr k"
proof -
  assume "0 \<le> k" "k \<le> 127"
  then have "k \<in> set [0..127]" by simp
  with roundtrip_all
  have "case num2note k of Inl e \<Rightarrow> False | Inr s \<Rightarrow> note2num s = Inr k"
    unfolding list_all_iff by blast
  then show ?thesis by (cases "num2note k") auto
qed

theorem note2num_num2note_witness:
  "(0::int) \<le> 61 \<and> (61::int) \<le> 127 \<and> num2note 61 = Inr ''C#5'' \<and> note2num ''C#5'' = Inr 61"
proof -
  have s: "num2note 61 = Inr ''C#5''"
    by (simp add: num2note_def notes_list_def str_py_def digit_char_def)
  from note2num_num2note [of 61] s show ?thesis by simp
qed

section \<open>Sorting\<close>

lemma mset_sorted_py [simp]: "mset (sorted_py key r xs) = mset xs"
  by (simp add: sorted_py_def)

lemma sorted_py_ascending: "sorted (map key (sorted_py key False xs))"
  by (simp add: sorted_py_def)

lemma sorted_py_descending: "sorted (rev (map key (sorted_py key True xs)))"
  by (simp add: sorted_py_def rev_map [symmetric])

lemma sorted_map_div100: "sorted (xs :: int list) \<Longrightarrow> sorted (map (\<lambda>x. x div 100) xs)"
  by (induction xs) (auto intro: zdiv_mono1)

lemma unzip_pairs_Inr:
  "ps \<noteq> [] \<Longrightarrow> unzip_pairs ps = Inr (map fst ps, map snd ps)"
  by (simp add: unzip_pairs_def)

lemma zip_eq_Nil: "zip xs ys = [] \<longleftrightarrow> xs = [] \<or> ys = []"
  by (cases xs; cases ys) simp_all

lemma sort_by_fret_result:
  assumes "placements p \<noteq> []" "fingers p \<noteq> []"
  shows "sort_by_fret p =
           Inr (NeckPosition
                  (map fst (sorted_py (\<lambda>x. fst x mod 100) False (zip (placements p) (fingers p))))
                  (map snd (sorted_py (\<lambda>x. fst x mod 100) False (zip (placements p) (fingers p))))
                  (pos_id p))"
  using assms by (simp add: sort_by_fret_def unzip_pairs_Inr zip_eq_Nil)

lemma sort_by_string_result:
  assumes "placements p \<noteq> []" "fingers p \<noteq> []"
  shows "sort_by_string p r =
           Inr (NeckPosition
                  (map fst (sorted_py (\<lambda>x. fst x) r (zip (placements p) (fingers p))))
                  (map snd (sorted_py (\<lambda>x. fst x) r (zip (placements p) (fingers p))))
                  (pos_id p))"
  using assms by (simp add: sort_by_string_def unzip_pairs_Inr zip_eq_Nil)

text \<open>
  C8. On a position with at least one (placement, finger) pair, \<open>sort_by_fret\<close> returns
  a position whose frets are in non-decreasing order and \<open>sort_by_string\<close> with
  \<open>reverse=True\<close> returns one whose strings are in non-increasing order (their reverse is
  sorted). Both results hold the same multiset of (placement, finger) pairs as the input
  and the same id.
\<close>

theorem sorts_sorted_permutation:
  assumes "placements p \<noteq> []" and "fingers p \<noteq> []"
  shows "(\<exists>q. sort_by_fret p = Inr q
            \<and> sorted (frets q)
            \<and> mset (zip (placements q) (fingers q)) = mset (zip (placements p) (fingers p))
            \<and> pos_id q = pos_id p)
       \<and> (\<exists>q. sort_by_string p True = Inr q
            \<and> sorted (rev (strings q))
            \<and> mset (zip (placements q) (fingers q)) = mset (zip (placements p) (fingers p))
            \<and> pos_id q = pos_id p)"
proof
  let ?z = "zip (placements p) (fingers p)"
  let ?s = "sorted_py (\<lambda>x. fst x mod 100) False ?z"
  have "sorted (map (\<lambda>x. fst x mod 100) ?s)" by (rule sorted_py_ascending)
  then have "sorted (frets (NeckPosition (map fst ?s) (map snd ?s) (pos_id p)))"
    by (simp add: frets_def comp_def)
  moreover have "mset (zip (map fst ?s) (map snd ?s)) = mset ?z"
    by (simp add: zip_map_fst_snd)
  ultimately show "\<exists>q. sort_by_fret p = Inr q
            \<and> sorted (frets q)
            \<and> mset (zip (placements q) (fingers q)) = mset (zip (placements p) (fingers p))
            \<and> pos_id q = pos_id p"
    using sort_by_fret_result [OF assms] by simp
next
  let ?z = "zip (placements p) (fingers p)"
  let ?s = "sorted_py (\<lambda>x. fst x) True ?z"
  have "sorted (rev (map (\<lambda>x. fst x) ?s))" by (rule sorted_py_descending)
  then have "sorted (map (\<lambda>x. x div 100) (rev (map fst ?s)))"
    by (intro sorted_map_div100) simp
  then have "sorted (rev (strings (NeckPosition (map fst ?s) (map snd ?s) (pos_id p))))"
    by (simp add: strings_def rev_map)
  moreover have "mset (zip (map fst ?s) (map snd ?s)) = mset ?z"
    by (simp add: zip_map_fst_snd)
  ultimately show "\<exists>q. sort_by_string p True = Inr q
            \<and> sorted (rev (strings q))
            \<and> mset (zip (placements q) (fingers q)) = mset (zip (placements p) (fingers p))
            \<and> pos_id q = pos_id p"
    using sort_by_string_result [OF assms, of True] by simp
qed

theorem sorts_sorted_permutation_witness:
  "placements (NeckPosition [203, 101, 302, 101] [1, 2, 3, 4] (Some 1)) \<noteq> []
   \<and> fingers (NeckPosition [203, 101, 302, 101] [1, 2, 3, 4] (Some 1)) \<noteq> []
   \<and> sort_by_fret (NeckPosition [203, 101, 302, 101] [1, 2, 3, 4] (Some 1))
       = Inr (NeckPosition [101, 101, 302, 203] [2, 4, 3, 1] (Some 1))
   \<and> sorted (frets (NeckPosition [101, 101, 302, 203] [2, 4, 3, 1] (Some 1)))
   \<and> sort_by_string (NeckPosition [203, 101, 302, 101] [1, 2, 3, 4] (Some 1)) True
       = Inr (NeckPosition [302, 203, 101, 101] [3, 1, 2, 4] (Some 1))
   \<and> sorted (rev (strings (NeckPosition [302, 203, 101, 101] [3, 1, 2, 4] (Some 1))))"
proof -
  let ?p = "NeckPosition [203, 101, 302, 101] [1, 2, 3, 4] (Some 1)"
  have h1: "placements ?p \<noteq> []" and h2: "fingers ?p \<noteq> []" by simp_all
  have e1: "sort_by_fret ?p = Inr (NeckPosition [101, 101, 302, 203] [2, 4, 3, 1] (Some 1))"
    by (simp add: sort_by_fret_def sorted_py_def unzip_pairs_def)
  have e2: "sort_by_string ?p True = Inr (NeckPosition [302, 203, 101, 101] [3, 1, 2, 4] (Some 1))"
    by (simp add: sort_by_string_def sorted_py_def unzip_pairs_def)
  from sorts_sorted_permutation [OF h1 h2] obtain q1 q2 where
    q1: "sort_by_fret ?p = Inr q1" "sorted (frets q1)" and
    q2: "sort_by_string ?p True = Inr q2" "sorted (rev (strings q2))"
    by blast
  from q1 e1 have s1: "sorted (frets (NeckPosition [101, 101, 302, 203] [2, 4, 3, 1] (Some 1)))"
    by (simp del: NeckPosition_eq_iff)
  from q2 e2 have s2: "sorted (rev (strings (NeckPosition [302, 203, 101, 101] [3, 1, 2, 4] (Some 1))))"
    by (simp del: NeckPosition_eq_iff)
  from h1 h2 e1 e2 s1 s2 show ?thesis by blast
qed

subsection \<open>The key of \<open>sort_by_string\<close>\<close>

lemma sorted_py_stable:
  "filter (\<lambda>y. key y = k) (sorted_py key r xs) = filter (\<lambda>y. key y = k) xs"
  by (simp add: sorted_py_def sort_key_stable rev_filter [symmetric])

lemma insort_key_cong_order:
  "\<forall>y \<in> set ys. (f x \<le> f y \<longleftrightarrow> g x \<le> g y) \<Longrightarrow> insort_key f x ys = insort_key g x ys"
  by (induction ys) auto

lemma sort_key_cong_order:
  "\<forall>x \<in> set xs. \<forall>y \<in> set xs. (f x \<le> f y \<longleftrightarrow> g x \<le> g y)
     \<Longrightarrow> sort_key f xs = sort_key g xs"
proof (induction xs)
  case Nil
  show ?case by simp
next
  case (Cons a xs)
  then have ih: "sort_key f xs = sort_key g xs" by simp
  from Cons.prems have "\<forall>y \<in> set (sort_key g xs). (f a \<le> f y \<longleftrightarrow> g a \<le> g y)" by simp
  then have "insort_key f a (sort_key g xs) = insort_key g a (sort_key g xs)"
    by (rule insort_key_cong_order)
  with ih show ?case by simp
qed

lemma sorted_py_cong_order:
  "\<forall>x \<in> set xs. \<forall>y \<in> set xs. (f x \<le> f y \<longleftrightarrow> g x \<le> g y)
     \<Longrightarrow> sorted_py f r xs = sorted_py g r xs"
  using sort_key_cong_order [of xs f g] sort_key_cong_order [of "rev xs" f g]
  by (simp add: sorted_py_def)

lemma div100_order:
  fixes x y :: int
  assumes "x div 100 = y div 100 \<longrightarrow> x = y"
  shows "x \<le> y \<longleftrightarrow> x div 100 \<le> y div 100"
proof
  assume "x \<le> y" then show "x div 100 \<le> y div 100" by (rule zdiv_mono1) simp
next
  assume a: "x div 100 \<le> y div 100"
  show "x \<le> y"
  proof (rule ccontr)
    assume "\<not> x \<le> y"
    then have "y \<le> x" by simp
    then have "y div 100 \<le> x div 100" by (rule zdiv_mono1) simp
    with a have "x div 100 = y div 100" by simp
    with assms have "x = y" by simp
    with \<open>\<not> x \<le> y\<close> show False by simp
  qed
qed

lemma fst_in_set_zip: "a \<in> set (zip ps fs) \<Longrightarrow> fst a \<in> set ps"
  by (cases a) (auto dest: set_zip_leftD)

lemma sorted_py_string_component:
  assumes "\<forall>x \<in> set ps. \<forall>y \<in> set ps. x div 100 = y div 100 \<longrightarrow> x = y"
  shows "sorted_py (\<lambda>x. fst x) r (zip ps fs) = sorted_py (\<lambda>x. fst x div 100) r (zip ps fs)"
proof (rule sorted_py_cong_order, intro ballI)
  fix a b assume "a \<in> set (zip ps fs)" "b \<in> set (zip ps fs)"
  then have "fst a \<in> set ps" "fst b \<in> set ps"
    by (auto dest: fst_in_set_zip)
  with assms have "fst a div 100 = fst b div 100 \<longrightarrow> fst a = fst b" by blast
  then show "fst a \<le> fst b \<longleftrightarrow> fst a div 100 \<le> fst b div 100" by (rule div100_order)
qed

text \<open>
  C3, as stated, fails: the key of \<open>sort_by_string\<close> is the raw placement, not the string
  component. The placements \<open>100\<close> and \<open>105\<close> are both on string 1; a stable sort by
  string component keeps them in their order, the code puts \<open>105\<close> first.
\<close>

theorem sort_by_string_vs_component_counterexample:
  "placements (NeckPosition [100, 105] [1, 2] None) \<noteq> []
   \<and> sort_by_string (NeckPosition [100, 105] [1, 2] None) True
       = Inr (NeckPosition [105, 100] [2, 1] None)
   \<and> sort_by_string_component (NeckPosition [100, 105] [1, 2] None) True
       = Inr (NeckPosition [100, 105] [1, 2] None)
   \<and> sort_by_string (NeckPosition [100, 105] [1, 2] None) True
       \<noteq> sort_by_string_component (NeckPosition [100, 105] [1, 2] None) True
   \<and> strings (NeckPosition [100, 105] [1, 2] None) = [1, 1]"
  by (simp add: sort_by_string_def sort_by_string_component_def sorted_py_def unzip_pairs_def
        strings_def)

text \<open>
  C3, amended. On a position with at least one (placement, finger) pair,
  \<open>sort_by_string\<close> with \<open>reverse=True\<close> is a stable sort of the pairs by the raw
  placement value, descending: the placements of the result are in non-increasing order
  and pairs with the same placement keep their original relative order. It equals the
  stable sort by string component alone whenever any two placements of the position with
  the same string component are equal, in particular when no string occurs twice.
\<close>

theorem sort_by_string_by_placement:
  assumes "placements p \<noteq> []" and "fingers p \<noteq> []"
  shows "\<exists>q. sort_by_string p True = Inr q
           \<and> sorted (rev (placements q))
           \<and> (\<forall>v. filter (\<lambda>x. fst x = v) (zip (placements q) (fingers q))
                   = filter (\<lambda>x. fst x = v) (zip (placements p) (fingers p)))
           \<and> ((\<forall>x \<in> set (placements p). \<forall>y \<in> set (placements p).
                  x div 100 = y div 100 \<longrightarrow> x = y)
                \<longrightarrow> sort_by_string_component p True = Inr q)"
proof -
  let ?z = "zip (placements p) (fingers p)"
  let ?s = "sorted_py (\<lambda>x. fst x) True ?z"
  let ?q = "NeckPosition (map fst ?s) (map snd ?s) (pos_id p)"
  have r: "sort_by_string p True = Inr ?q" by (rule sort_by_string_result [OF assms])
  have "sorted (rev (map (\<lambda>x. fst x) ?s))" by (rule sorted_py_descending)
  then have a: "sorted (rev (placements ?q))" by simp
  have b: "\<forall>v. filter (\<lambda>x. fst x = v) (zip (placements ?q) (fingers ?q))
                   = filter (\<lambda>x. fst x = v) ?z"
    by (simp add: zip_map_fst_snd sorted_py_stable)
  have c: "sort_by_string_component p True = Inr ?q"
    if "\<forall>x \<in> set (placements p). \<forall>y \<in> set (placements p). x div 100 = y div 100 \<longrightarrow> x = y"
  proof -
    from that have "?s = sorted_py (\<lambda>x. fst x div 100) True ?z"
      by (rule sorted_py_string_component)
    with r show ?thesis by (simp add: sort_by_string_def sort_by_string_component_def)
  qed
  from r a b c show ?thesis by blast
qed

theorem sort_by_string_by_placement_witness:
  "placements (NeckPosition [203, 101, 302, 101] [1, 2, 3, 4] (Some 1)) \<noteq> []
   \<and> fingers (NeckPosition [203, 101, 302, 101] [1, 2, 3, 4] (Some 1)) \<noteq> []
   \<and> \<not> (\<exists>x \<in> set (placements (NeckPosition [203, 101, 302, 101] [1, 2, 3, 4] (Some 1))).
          \<exists>y \<in> set (placements (NeckPosition [203, 101, 302, 101] [1, 2, 3, 4] (Some 1))).
            x div 100 = y div 100 \<and> x \<noteq> y)
   \<and> sort_by_string (NeckPosition [203, 101, 302, 101] [1, 2, 3, 4] (Some 1)) True
       = Inr (NeckPosition [302, 203, 101, 101] [3, 1, 2, 4] (Some 1))
   \<and> sort_by_string_component (NeckPosition [203, 101, 302, 101] [1, 2, 3, 4] (Some 1)) True
       = Inr (NeckPosition [302, 203, 101, 101] [3, 1, 2, 4] (Some 1))"
proof -
  let ?p = "NeckPosition [203, 101, 302, 101] [1, 2, 3, 4] (Some 1)"
  have h1: "placements ?p \<noteq> []" and h2: "fingers ?p \<noteq> []" by simp_all
  have h3: "\<forall>x \<in> set (placements ?p). \<forall>y \<in> set (placements ?p). x div 100 = y div 100 \<longrightarrow> x = y"
    by simp
  have e: "sort_by_string ?p True = Inr (NeckPosition [302, 203, 101, 101] [3, 1, 2, 4] (Some 1))"
    by (simp add: sort_by_string_def sorted_py_def unzip_pairs_def)
  from sort_by_string_by_placement [OF h1 h2] h3 obtain q where
    q: "sort_by_string ?p True = Inr q" "sort_by_string_component ?p True = Inr q"
    by blast
  from q e have c: "sort_by_string_component ?p True
       = Inr (NeckPosition [302, 203, 101, 101] [3, 1, 2, 4] (Some 1))"
    by simp
  from h3 have h4: "\<not> (\<exists>x \<in> set (placements ?p). \<exists>y \<in> set (placements ?p).
                        x div 100 = y div 100 \<and> x \<noteq> y)"
    by blast
  from h1 h2 h4 e c show ?thesis by blast
qed

section \<open>Shifting the fingers\<close>

lemma max_py_Max: "fs \<noteq> [] \<Longrightarrow> max_py fs = Inr (Max (set fs))"
  by (cases fs) (simp_all add: max_py_def Max.set_eq_fold [symmetric])

lemma shift_loop_result:
  "\<forall>i \<in> set is. i < length fs \<Longrightarrow>
     shift_loop fs s is acc
       = Inr (acc @ map (\<lambda>i. if fs ! i > 0 then fs ! i + s else fs ! i) is)"
  by (induction "is" arbitrary: acc) auto

lemma shift_loop_all:
  "shift_loop fs s [0 ..< length fs] [] = Inr (map (\<lambda>f. if f > 0 then f + s else f) fs)"
proof -
  have "shift_loop fs s [0 ..< length fs] []
          = Inr (map (\<lambda>i. if fs ! i > 0 then fs ! i + s else fs ! i) [0 ..< length fs])"
    by (simp add: shift_loop_result)
  also have "map (\<lambda>i. if fs ! i > 0 then fs ! i + s else fs ! i) [0 ..< length fs]
               = map (\<lambda>f. if f > 0 then f + s else f) (map (\<lambda>i. fs ! i) [0 ..< length fs])"
    by (simp add: comp_def)
  also have "\<dots> = map (\<lambda>f. if f > 0 then f + s else f) fs"
    by (simp only: map_nth)
  finally show ?thesis .
qed

lemma shift_noop:
  assumes "fingers p \<noteq> []" and "m \<in> set (fingers p) \<or> Max (set (fingers p)) + s > m"
  shows "shift p s m = Inr p"
  using assms by (auto simp: shift_def max_py_Max)

lemma shift_moves:
  assumes "fingers p \<noteq> []" and "m \<notin> set (fingers p)" and "Max (set (fingers p)) + s \<le> m"
    and "length (placements p) = length (fingers p)"
  shows "shift p s m = Inr (p\<lparr>fingers := map (\<lambda>f. if f > 0 then f + s else f) (fingers p)\<rparr>)"
  using assms by (simp add: shift_def max_py_Max shift_loop_all)

lemma shift_ex1:
  "shift (NeckPosition [a, b, c, d] [1, 2, 0, 3] i) 1 4 = Inr (NeckPosition [a, b, c, d] [2, 3, 0, 4] i)"
  by (simp add: shift_def max_py_def NeckPosition_def Position_init_def upt_rec)

lemma shift_ex2:
  "shift (NeckPosition ps [1, 4, 0, 3] i) 1 4 = Inr (NeckPosition ps [1, 4, 0, 3] i)"
  by (simp add: shift_def)

text \<open>
  C4, as stated, fails on a position whose placements outnumber its fingers, such as the
  one \<open>get_full_position\<close> returns for two notes on six strings: the fingers are not
  empty, \<open>max_finger = 4\<close> is not among them and their maximum plus the shift does not
  exceed it, yet \<open>shift\<close> raises \<open>IndexError\<close> instead of shifting, because its loop runs
  over the indices of the placements.
\<close>

theorem shift_unequal_lengths_counterexample:
  "get_full_position (NeckPosition [0, 203] [1, 2] None) 6
     = Inr (NeckPosition [0, - 1, 203, - 1, - 1, - 1] [1, 2] None)
   \<and> fingers (NeckPosition [0, - 1, 203, - 1, - 1, - 1] [1, 2] None) \<noteq> []
   \<and> 4 \<notin> set (fingers (NeckPosition [0, - 1, 203, - 1, - 1, - 1] [1, 2] None))
   \<and> \<not> Max (set (fingers (NeckPosition [0, - 1, 203, - 1, - 1, - 1] [1, 2] None))) + 1 > 4
   \<and> shift (NeckPosition [0, - 1, 203, - 1, - 1, - 1] [1, 2] None) 1 4 = Inl IndexError"
  by (simp add: get_full_position_example [of "[1, 2]" None, simplified]
        shift_def max_py_def upt_rec)

text \<open>
  C4, amended. On a position with non-empty fingers, \<open>shift\<close> changes nothing if
  \<open>max_finger\<close> is among the fingers or if the largest finger plus the shift exceeds
  \<open>max_finger\<close>. Otherwise, when placements and fingers have the same length, every finger
  greater than 0 is replaced by itself plus the shift and the fingers that are 0 or
  negative stay. Shifting the fingers \<open>[1,2,0,3]\<close> (on four placements) by 1 with
  \<open>max_finger = 4\<close> gives \<open>[2,3,0,4]\<close>; on the fingers \<open>[1,4,0,3]\<close> it changes nothing.
\<close>

theorem shift_correct:
  assumes "fingers p \<noteq> []"
  shows "(m \<in> set (fingers p) \<or> Max (set (fingers p)) + s > m \<longrightarrow> shift p s m = Inr p)
       \<and> (m \<notin> set (fingers p) \<and> Max (set (fingers p)) + s \<le> m
            \<and> length (placements p) = length (fingers p) \<longrightarrow>
          shift p s m = Inr (p\<lparr>fingers := map (\<lambda>f. if f > 0 then f + s else f) (fingers p)\<rparr>))
       \<and> shift (NeckPosition [a, b, c, d] [1, 2, 0, 3] i) 1 4
            = Inr (NeckPosition [a, b, c, d] [2, 3, 0, 4] i)
       \<and> shift (NeckPosition ps [1, 4, 0, 3] i) 1 4 = Inr (NeckPosition ps [1, 4, 0, 3] i)"
  using shift_noop [OF assms, of m s] shift_moves [OF assms, of m s] shift_ex1 shift_ex2
  by blast

theorem shift_correct_witness:
  "fingers (NeckPosition [100, 202, 300] [1, 0, 2] (Some 9)) \<noteq> []
   \<and> 4 \<notin> set (fingers (NeckPosition [100, 202, 300] [1, 0, 2] (Some 9)))
   \<and> Max (set (fingers (NeckPosition [100, 202, 300] [1, 0, 2] (Some 9)))) + 2 \<le> 4
   \<and> length (placements (NeckPosition [100, 202, 300] [1, 0, 2] (Some 9)))
       = length (fingers (NeckPosition [100, 202, 300] [1, 0, 2] (Some 9)))
   \<and> shift (NeckPosition [100, 202, 300] [1, 0, 2] (Some 9)) 2 4
       = Inr (NeckPosition [100, 202, 300] [3, 0, 4] (Some 9))
   \<and> Max (set (fingers (NeckPosition [100, 202, 300] [1, 0, 2] (Some 9)))) + 3 > 4
   \<and> shift (NeckPosition [100, 202, 300] [1, 0, 2] (Some 9)) 3 4
       = Inr (NeckPosition [100, 202, 300] [1, 0, 2] (Some 9))"
proof -
  let ?p = "NeckPosition [100, 202, 300] [1, 0, 2] (Some 9)"
  have h: "fingers ?p \<noteq> []" by simp
  have a: "4 \<notin> set (fingers ?p)" "Max (set (fingers ?p)) + 2 \<le> 4"
          "length (placements ?p) = length (fingers ?p)"
    by simp_all
  have b: "Max (set (fingers ?p)) + 3 > 4" by simp
  have u: "?p\<lparr>fingers := map (\<lambda>f. if f > 0 then f + 2 else f) (fingers ?p)\<rparr>
             = NeckPosition [100, 202, 300] [3, 0, 4] (Some 9)"
    by (simp add: NeckPosition_def Position_init_def)
  from shift_correct [OF h, of 4 2] a
  have "shift ?p 2 4 = Inr (?p\<lparr>fingers := map (\<lambda>f. if f > 0 then f + 2 else f) (fingers ?p)\<rparr>)"
    by blast
  with u have m: "shift ?p 2 4 = Inr (NeckPosition [100, 202, 300] [3, 0, 4] (Some 9))"
    by simp
  from shift_correct [OF h, of 4 3] b have n: "shift ?p 3 4 = Inr ?p" by blast
  from h a b m n show ?thesis by blast
qed

section \<open>Placements and fingers of equal length\<close>

lemma sort_by_string_cases:
  "sort_by_string p r =
     (if placements p = [] \<or> fingers p = [] then Inl (ValueError NotEnoughValues)
      else Inr (NeckPosition
                  (map fst (sorted_py (\<lambda>x. fst x) r (zip (placements p) (fingers p))))
                  (map snd (sorted_py (\<lambda>x. fst x) r (zip (placements p) (fingers p))))
                  (pos_id p)))"
  by (simp add: sort_by_string_def unzip_pairs_def zip_eq_Nil)

lemma sort_by_fret_cases:
  "sort_by_fret p =
     (if placements p = [] \<or> fingers p = [] then Inl (ValueError NotEnoughValues)
      else Inr (NeckPosition
                  (map fst (sorted_py (\<lambda>x. fst x mod 100) False (zip (placements p) (fingers p))))
                  (map snd (sorted_py (\<lambda>x. fst x mod 100) False (zip (placements p) (fingers p))))
                  (pos_id p)))"
  by (simp add: sort_by_fret_def unzip_pairs_def zip_eq_Nil)

lemma sort_by_finger_cases:
  "sort_by_finger p =
     (if placements p = [] \<or> fingers p = [] then Inl (ValueError NotEnoughValues)
      else Inr (NeckPosition
                  (map fst (sorted_py (\<lambda>x. snd x) False (zip (placements p) (fingers p))))
                  (map snd (sorted_py (\<lambda>x. snd x) False (zip (placements p) (fingers p))))
                  (pos_id p)))"
  by (simp add: sort_by_finger_def unzip_pairs_def zip_eq_Nil)

lemma shift_cases:
  assumes "length (placements p) = length (fingers p)"
  shows "shift p s m =
     (if fingers p = [] then Inl (ValueError EmptyMax)
      else if m \<in> set (fingers p) \<or> Max (set (fingers p)) + s > m then Inr p
      else Inr (p\<lparr>fingers := map (\<lambda>f. if f > 0 then f + s else f) (fingers p)\<rparr>))"
proof (cases "fingers p = []")
  case True
  then show ?thesis by (simp add: shift_def max_py_def)
next
  case False
  then show ?thesis
    using shift_noop [of p m s] shift_moves [of p m s] assms by (auto simp: not_less)
qed

text \<open>
  C1, as stated, fails: \<open>get_full_position\<close> hands the fingers on as they are and builds
  one placement per string, so a position with two placements and two fingers becomes one
  with six placements and two fingers.
\<close>

theorem get_full_position_breaks_equal_length_counterexample:
  "length (placements (NeckPosition [0, 203] [1, 2] None))
     = length (fingers (NeckPosition [0, 203] [1, 2] None))
   \<and> get_full_position (NeckPosition [0, 203] [1, 2] None) 6
       = Inr (NeckPosition [0, - 1, 203, - 1, - 1, - 1] [1, 2] None)
   \<and> length (placements (NeckPosition [0, - 1, 203, - 1, - 1, - 1] [1, 2] None))
       \<noteq> length (fingers (NeckPosition [0, - 1, 203, - 1, - 1, - 1] [1, 2] None))"
  by (simp add: get_full_position_example [of "[1, 2]" None, simplified])

text \<open>
  C1, amended. On a position whose placements and fingers have equal length, \<open>add_note\<close>,
  \<open>copy\<close>, \<open>from_position\<close> and the constructor give a position with placements and
  fingers of equal length; so do \<open>shift\<close> and the three sorts, which raise only on the
  empty position; so does \<open>from_strings_frets\<close> on strings, frets and fingers of one
  length. \<open>get_full_position\<close> always returns, with \<open>num_fingers\<close> placements (none if that
  is negative) and the fingers unchanged: its result has placements and fingers of equal
  length exactly when \<open>num_fingers\<close> is the number of fingers.
\<close>

theorem equal_length_preserved:
  assumes "length (placements p) = length (fingers p)"
  shows "length (placements (add_note p string fret finger))
           = length (fingers (add_note p string fret finger))
       \<and> (case shift p s m of
            Inl e \<Rightarrow> fingers p = []
          | Inr q \<Rightarrow> length (placements q) = length (fingers q))
       \<and> (case sort_by_string p r of
            Inl e \<Rightarrow> placements p = []
          | Inr q \<Rightarrow> length (placements q) = length (fingers q))
       \<and> (case sort_by_fret p of
            Inl e \<Rightarrow> placements p = []
          | Inr q \<Rightarrow> length (placements q) = length (fingers q))
       \<and> (case sort_by_finger p of
            Inl e \<Rightarrow> placements p = []
          | Inr q \<Rightarrow> length (placements q) = length (fingers q))
       \<and> length (placements (copy p)) = length (fingers (copy p))
       \<and> length (placements (from_position p)) = length (fingers (from_position p))
       \<and> length (placements (NeckPosition (placements p) (fingers p) i))
           = length (fingers (NeckPosition (placements p) (fingers p) i))
       \<and> (length ss = length fs \<and> length fs = length (fingers p) \<longrightarrow>
            length (placements (from_strings_frets (fingers p) ss fs i))
              = length (fingers (from_strings_frets (fingers p) ss fs i)))
       \<and> (\<exists>q. get_full_position p n = Inr q
              \<and> length (placements q) = nat n \<and> length (fingers q) = length (fingers p)
              \<and> (length (placements q) = length (fingers q) \<longleftrightarrow> nat n = length (fingers p)))"
proof -
  have a: "length (placements (add_note p string fret finger))
           = length (fingers (add_note p string fret finger))"
    using assms by (simp add: add_note_def)
  have b: "case shift p s m of
            Inl e \<Rightarrow> fingers p = []
          | Inr q \<Rightarrow> length (placements q) = length (fingers q)"
    using assms by (simp add: shift_cases)
  from assms have e: "placements p = [] \<longleftrightarrow> fingers p = []" by (metis length_0_conv)
  have c: "case sort_by_string p r of
            Inl e \<Rightarrow> placements p = []
          | Inr q \<Rightarrow> length (placements q) = length (fingers q)"
    using e by (simp add: sort_by_string_cases)
  have d: "case sort_by_fret p of
            Inl e \<Rightarrow> placements p = []
          | Inr q \<Rightarrow> length (placements q) = length (fingers q)"
    using e by (simp add: sort_by_fret_cases)
  have f: "case sort_by_finger p of
            Inl e \<Rightarrow> placements p = []
          | Inr q \<Rightarrow> length (placements q) = length (fingers q)"
    using e by (simp add: sort_by_finger_cases)
  have g: "length (placements (copy p)) = length (fingers (copy p))"
    using assms by (simp add: copy_def)
  have h: "length (placements (from_position p)) = length (fingers (from_position p))"
    using assms by (simp add: from_position_def)
  have k: "length (placements (NeckPosition (placements p) (fingers p) i))
           = length (fingers (NeckPosition (placements p) (fingers p) i))"
    using assms by simp
  have l: "length ss = length fs \<and> length fs = length (fingers p) \<longrightarrow>
            length (placements (from_strings_frets (fingers p) ss fs i))
              = length (fingers (from_strings_frets (fingers p) ss fs i))"
    by (simp add: from_strings_frets_def convert_strings_frets_to_placements_def)
  have n: "\<exists>q. get_full_position p n = Inr q
              \<and> length (placements q) = nat n \<and> length (fingers q) = length (fingers p)
              \<and> (length (placements q) = length (fingers q) \<longleftrightarrow> nat n = length (fingers p))"
    by (simp add: get_full_position_result)
  from a b c d f g h k l n show ?thesis by blast
qed

theorem equal_length_preserved_witness:
  "length (placements (NeckPosition [100, 205] [1, 2] (Some 3)))
     = length (fingers (NeckPosition [100, 205] [1, 2] (Some 3)))
   \<and> length (placements (add_note (NeckPosition [100, 205] [1, 2] (Some 3)) 3 1 4))
       = length (fingers (add_note (NeckPosition [100, 205] [1, 2] (Some 3)) 3 1 4))
   \<and> shift (NeckPosition [100, 205] [1, 2] (Some 3)) 1 4
       = Inr (NeckPosition [100, 205] [2, 3] (Some 3))
   \<and> length (placements (NeckPosition [100, 205] [2, 3] (Some 3)))
       = length (fingers (NeckPosition [100, 205] [2, 3] (Some 3)))
   \<and> (\<exists>q. get_full_position (NeckPosition [100, 205] [1, 2] (Some 3)) 2 = Inr q
          \<and> length (placements q) = length (fingers q))"
proof -
  let ?p = "NeckPosition [100, 205] [1, 2] (Some 3)"
  have h: "length (placements ?p) = length (fingers ?p)" by simp
  have s: "shift ?p 1 4 = Inr (NeckPosition [100, 205] [2, 3] (Some 3))"
    by (simp add: shift_def max_py_def NeckPosition_def Position_init_def upt_rec)
  note t = equal_length_preserved [OF h, of 3 1 4 1 4 True None "[]" "[]" 2]
  from t have a: "length (placements (add_note ?p 3 1 4)) = length (fingers (add_note ?p 3 1 4))"
    by blast
  from t have "case shift ?p 1 4 of Inl e \<Rightarrow> fingers ?p = []
                | Inr q \<Rightarrow> length (placements q) = length (fingers q)"
    by blast
  with s have b: "length (placements (NeckPosition [100, 205] [2, 3] (Some 3)))
       = length (fingers (NeckPosition [100, 205] [2, 3] (Some 3)))"
    by (simp del: NeckPosition_sel)
  from t obtain q where "get_full_position ?p 2 = Inr q"
     "length (placements q) = length (fingers q) \<longleftrightarrow> nat 2 = length (fingers ?p)"
    by blast
  then have c: "\<exists>q. get_full_position ?p 2 = Inr q \<and> length (placements q) = length (fingers q)"
    by simp
  from h s a b c show ?thesis by blast
qed

end
